theory Spec2Isabelle
  imports Main
begin

section \<open>The GATK Python tool module: ack FIFO, data FIFO, exception hook\<close>

text \<open>
  The module \<^verbatim>\<open>gatktool/tool.py\<close> keeps two module globals, \<^verbatim>\<open>_ackFIFO\<close> and
  \<^verbatim>\<open>_dataFIFO\<close>, and replaces the interpreter's \<^verbatim>\<open>sys.excepthook\<close>. The model
  passes this process-wide state explicitly, together with the part of the operating
  system the module touches: the named pipes and what has been printed by the
  interpreter's unhandled-error path.

  Every function returns the pair of its outcome and the state at the point where it
  returned or raised: a Python exception does not roll anything back.
\<close>

subsection \<open>Exceptions\<close>

text \<open>
  \<^verbatim>\<open>assert c\<close> with a false condition raises \<^verbatim>\<open>AssertionError\<close>; calling a method
  on \<^verbatim>\<open>None\<close> raises \<^verbatim>\<open>AttributeError\<close>; \<^verbatim>\<open>os.open\<close> raises \<^verbatim>\<open>ValueError\<close>
  for a path with an embedded null character and \<^verbatim>\<open>OSError\<close> for a path it cannot
  open (no \<^verbatim>\<open>O_CREAT\<close> is passed).

  \<open>Blocked\<close> is not an exception. It is the outcome of a call that does not return
  because it waits for the host; the state beside it is the state in which it waits.
\<close>

datatype error = AssertionError | AttributeError | OSError | ValueError | Blocked

subsection \<open>The operating system side: named pipes and text files on them\<close>

text \<open>
  \<open>openable flag\<close> are the paths that \<^verbatim>\<open>os.open\<close> opens with that flag. The host
  puts named pipes there, and what is at such a path is treated as one; a descriptor is
  identified with the path it was opened on. \<open>pipe p\<close> are the bytes that were
  written into the pipe at \<open>p\<close> and have not been read from it yet, oldest first; a
  \<open>char\<close> is one byte, and text is identified with the bytes that encode it.
  \<open>host_closed p\<close> says that the host has closed its end of the pipe at \<open>p\<close>.
  For the ack pipe the module is the writer, for the data pipe it is the reader.

  A file object made by \<^verbatim>\<open>os.fdopen(fd, 'w')\<close> is a buffered text writer:
  \<^verbatim>\<open>write\<close> appends to the buffer, \<^verbatim>\<open>flush\<close> and \<^verbatim>\<open>close\<close> move the buffer
  into the pipe.
\<close>

datatype open_flag = O_WRONLY | O_RDONLY

definition NUL :: char where
  "NUL = CHR 0x00"

definition os_open :: "(open_flag \<Rightarrow> string set) \<Rightarrow> string \<Rightarrow> open_flag \<Rightarrow> error + string" where
  "os_open can_open name flag =
     (if NUL \<in> set name then Inl ValueError
      else if name \<in> can_open flag then Inr name
      else Inl OSError)"

record writer =
  wpath :: string
  pending :: string

record reader =
  rpath :: string

definition file_write :: "writer \<Rightarrow> string \<Rightarrow> writer" where
  "file_write w txt = w\<lparr>pending := pending w @ txt\<rparr>"

definition file_flush :: "writer \<Rightarrow> (string \<Rightarrow> string) \<Rightarrow> writer \<times> (string \<Rightarrow> string)" where
  "file_flush w p = (w\<lparr>pending := []\<rparr>, p(wpath w := p (wpath w) @ pending w))"

text \<open>
  A file object made by \<^verbatim>\<open>os.fdopen(fd, 'r')\<close> is a text reader with the default
  \<^verbatim>\<open>newline=None\<close>, Python's universal-newlines mode: a line ends at a line feed, at
  a carriage return, or at a carriage return followed by a line feed, and each of these
  endings is handed to the caller as a single line feed. The descriptor is a blocking
  one: \<^verbatim>\<open>readline\<close> returns the next line with its ending as soon as the pipe holds
  it, and waits while the pipe holds no line ending and the host has not closed its end
  (a carriage return that is the last byte so far is not yet known to end the line
  alone). Once the host has closed its end, it returns the unterminated rest, and the
  empty string at the end of the stream. The result, when the call returns, is the line
  and what is left in the pipe. The reader takes from the pipe only what it returns: a
  read-ahead buffer inside the file object is not modelled.
\<close>

definition LF :: char where
  "LF = CHR 0x0A"

definition CR :: char where
  "CR = CHR 0x0D"

fun readline :: "bool \<Rightarrow> string \<Rightarrow> (string \<times> string) option" where
  "readline eof [] = (if eof then Some ([], []) else None)"
| "readline eof (c # cs) =
     (if c = LF then Some ([LF], cs)
      else if c = CR then
        (case cs of
           [] \<Rightarrow> (if eof then Some ([LF], []) else None)
         | d # ds \<Rightarrow> if d = LF then Some ([LF], ds) else Some ([LF], d # ds))
      else (case readline eof cs of
              None \<Rightarrow> None
            | Some (l, rest) \<Rightarrow> Some (c # l, rest)))"

definition file_readline ::
  "reader \<Rightarrow> (string \<Rightarrow> string) \<Rightarrow> (string \<Rightarrow> bool) \<Rightarrow> (string \<times> (string \<Rightarrow> string)) option" where
  "file_readline r p closed =
     (case readline (closed (rpath r)) (p (rpath r)) of
        None \<Rightarrow> None
      | Some (l, rest) \<Rightarrow> Some (l, p(rpath r := rest)))"

subsection \<open>class AckFIFO\<close>

record AckFIFO =
  ackFIFOName :: string
  fileWriter :: "writer option"

definition ackString :: string where
  "ackString = ''ack''"

definition nackString :: string where
  "nackString = ''nck''"

definition AckFIFO_init :: "string \<Rightarrow> (open_flag \<Rightarrow> string set) \<Rightarrow> error + AckFIFO" where
  "AckFIFO_init name can_open =
     (case os_open can_open name O_WRONLY of
        Inl err \<Rightarrow> Inl err
      | Inr writeDescriptor \<Rightarrow>
          Inr \<lparr>ackFIFOName = name,
               fileWriter = Some \<lparr>wpath = writeDescriptor, pending = []\<rparr>\<rparr>)"

definition writeAck ::
  "AckFIFO \<Rightarrow> (string \<Rightarrow> string) \<Rightarrow> (error + unit) \<times> AckFIFO \<times> (string \<Rightarrow> string)" where
  "writeAck a p =
     (case fileWriter a of
        None \<Rightarrow> (Inl AssertionError, a, p)
      | Some w \<Rightarrow>
          (case file_flush (file_write w ackString) p of
             (w', p') \<Rightarrow> (Inr (), a\<lparr>fileWriter := Some w'\<rparr>, p')))"

definition writeNack ::
  "AckFIFO \<Rightarrow> (string \<Rightarrow> string) \<Rightarrow> (error + unit) \<times> AckFIFO \<times> (string \<Rightarrow> string)" where
  "writeNack a p =
     (case fileWriter a of
        None \<Rightarrow> (Inl AssertionError, a, p)
      | Some w \<Rightarrow>
          (case file_flush (file_write w nackString) p of
             (w', p') \<Rightarrow> (Inr (), a\<lparr>fileWriter := Some w'\<rparr>, p')))"

definition AckFIFO_close ::
  "AckFIFO \<Rightarrow> (string \<Rightarrow> string) \<Rightarrow> (error + unit) \<times> AckFIFO \<times> (string \<Rightarrow> string)" where
  "AckFIFO_close a p =
     (case fileWriter a of
        None \<Rightarrow> (Inl AssertionError, a, p)
      | Some w \<Rightarrow>
          (case file_flush w p of
             (w', p') \<Rightarrow> (Inr (), a\<lparr>fileWriter := None\<rparr>, p')))"

subsection \<open>class DataFIFO\<close>

record DataFIFO =
  dataFIFOName :: string
  fileReader :: "reader option"

definition DataFIFO_init :: "string \<Rightarrow> (open_flag \<Rightarrow> string set) \<Rightarrow> error + DataFIFO" where
  "DataFIFO_init name can_open =
     (case os_open can_open name O_RDONLY of
        Inl err \<Rightarrow> Inl err
      | Inr readDescriptor \<Rightarrow>
          Inr \<lparr>dataFIFOName = name, fileReader = Some \<lparr>rpath = readDescriptor\<rparr>\<rparr>)"

definition readLine ::
  "DataFIFO \<Rightarrow> (string \<Rightarrow> string) \<Rightarrow> (string \<Rightarrow> bool) \<Rightarrow>
   (error + string) \<times> DataFIFO \<times> (string \<Rightarrow> string)" where
  "readLine d p closed =
     (case fileReader d of
        None \<Rightarrow> (Inl AssertionError, d, p)
      | Some r \<Rightarrow>
          (case file_readline r p closed of
             None \<Rightarrow> (Inl Blocked, d, p)
           | Some (l, p') \<Rightarrow> (Inr l, d, p')))"

definition DataFIFO_close ::
  "DataFIFO \<Rightarrow> (string \<Rightarrow> string) \<Rightarrow> (error + unit) \<times> DataFIFO \<times> (string \<Rightarrow> string)" where
  "DataFIFO_close d p =
     (case fileReader d of
        None \<Rightarrow> (Inl AssertionError, d, p)
      | Some r \<Rightarrow> (Inr (), d\<lparr>fileReader := None\<rparr>, p))"

subsection \<open>The module globals and the module-level functions\<close>

text \<open>
  \<open>excepthook\<close> is the value of \<^verbatim>\<open>sys.excepthook\<close>: the interpreter's own handler
  or \<^verbatim>\<open>gatkExceptionHook\<close>. An exception is the triple the interpreter passes to the
  hook. \<open>stderr\<close> lists what the interpreter's unhandled-error path has printed: the
  traceback of an exception, printed by \<^verbatim>\<open>sys.__excepthook__\<close>, or the report the
  interpreter prints itself when the installed hook raised.
\<close>

datatype excepthook = DefaultExceptHook | GatkExceptionHook

type_synonym exc_info = "string \<times> string \<times> string"

datatype report = Traceback exc_info | ErrorInExcepthook error exc_info

record session =
  ackFIFO :: "AckFIFO option"
  dataFIFO :: "DataFIFO option"
  excepthook :: excepthook
  openable :: "open_flag \<Rightarrow> string set"
  pipe :: "string \<Rightarrow> string"
  host_closed :: "string \<Rightarrow> bool"
  stderr :: "report list"

text \<open>The module as imported: both globals \<^verbatim>\<open>None\<close>, the interpreter's own hook.\<close>

definition module_loaded ::
  "(open_flag \<Rightarrow> string set) \<Rightarrow> (string \<Rightarrow> string) \<Rightarrow> (string \<Rightarrow> bool) \<Rightarrow> session" where
  "module_loaded can_open p closed =
     \<lparr>ackFIFO = None, dataFIFO = None, excepthook = DefaultExceptHook,
      openable = can_open, pipe = p, host_closed = closed, stderr = []\<rparr>"

definition sendAck :: "session \<Rightarrow> (error + unit) \<times> session" where
  "sendAck s =
     (case ackFIFO s of
        None \<Rightarrow> (Inl AttributeError, s)
      | Some a \<Rightarrow>
          (case writeAck a (pipe s) of
             (r, a', p') \<Rightarrow> (r, s\<lparr>ackFIFO := Some a', pipe := p'\<rparr>)))"

definition sendNack :: "session \<Rightarrow> (error + unit) \<times> session" where
  "sendNack s =
     (case ackFIFO s of
        None \<Rightarrow> (Inl AttributeError, s)
      | Some a \<Rightarrow>
          (case writeNack a (pipe s) of
             (r, a', p') \<Rightarrow> (r, s\<lparr>ackFIFO := Some a', pipe := p'\<rparr>)))"

definition sys_default_excepthook :: "exc_info \<Rightarrow> session \<Rightarrow> (error + unit) \<times> session" where
  "sys_default_excepthook e s = (Inr (), s\<lparr>stderr := stderr s @ [Traceback e]\<rparr>)"

definition gatkExceptionHook :: "exc_info \<Rightarrow> session \<Rightarrow> (error + unit) \<times> session" where
  "gatkExceptionHook e s =
     (case sendNack s of
        (Inl err, s1) \<Rightarrow> (Inl err, s1)
      | (Inr u, s1) \<Rightarrow> sys_default_excepthook e s1)"

text \<open>
  The body of \<^verbatim>\<open>onTraversalStart\<close> is two statements: the assignment of a new
  \<^verbatim>\<open>AckFIFO\<close> to the global, then the assignment to \<^verbatim>\<open>sys.excepthook\<close>.
  An assignment to a global drops the object the global held; what the interpreter does
  with a dropped object is not part of the state.
\<close>

definition open_ackFIFO :: "string \<Rightarrow> session \<Rightarrow> (error + unit) \<times> session" where
  "open_ackFIFO name s =
     (case AckFIFO_init name (openable s) of
        Inl err \<Rightarrow> (Inl err, s)
      | Inr a \<Rightarrow> (Inr (), s\<lparr>ackFIFO := Some a\<rparr>))"

definition install_excepthook :: "session \<Rightarrow> (error + unit) \<times> session" where
  "install_excepthook s = (Inr (), s\<lparr>excepthook := GatkExceptionHook\<rparr>)"

definition onTraversalStart :: "string \<Rightarrow> session \<Rightarrow> (error + unit) \<times> session" where
  "onTraversalStart name s =
     (case open_ackFIFO name s of
        (Inl err, s1) \<Rightarrow> (Inl err, s1)
      | (Inr u, s1) \<Rightarrow> install_excepthook s1)"

definition onTraversalSuccess :: "session \<Rightarrow> (error + unit) \<times> session" where
  "onTraversalSuccess s = (Inr (), s)"

definition closeTool :: "session \<Rightarrow> (error + unit) \<times> session" where
  "closeTool s =
     (case ackFIFO s of
        None \<Rightarrow> (Inl AssertionError, s)
      | Some a \<Rightarrow>
          (case AckFIFO_close a (pipe s) of
             (Inl err, a', p') \<Rightarrow> (Inl err, s\<lparr>ackFIFO := Some a', pipe := p'\<rparr>)
           | (Inr u, a', p') \<Rightarrow> (Inr (), s\<lparr>ackFIFO := None, pipe := p'\<rparr>)))"

definition initializeDataFIFO :: "string \<Rightarrow> session \<Rightarrow> (error + unit) \<times> session" where
  "initializeDataFIFO name s =
     (case DataFIFO_init name (openable s) of
        Inl err \<Rightarrow> (Inl err, s)
      | Inr d \<Rightarrow> (Inr (), s\<lparr>dataFIFO := Some d\<rparr>))"

definition closeDataFIFO :: "session \<Rightarrow> (error + unit) \<times> session" where
  "closeDataFIFO s =
     (case dataFIFO s of
        None \<Rightarrow> (Inl AssertionError, s)
      | Some d \<Rightarrow>
          (case DataFIFO_close d (pipe s) of
             (Inl err, d', p') \<Rightarrow> (Inl err, s\<lparr>dataFIFO := Some d', pipe := p'\<rparr>)
           | (Inr u, d', p') \<Rightarrow> (Inr (), s\<lparr>dataFIFO := None, pipe := p'\<rparr>)))"

definition readDataFIFO :: "session \<Rightarrow> (error + string) \<times> session" where
  "readDataFIFO s =
     (case dataFIFO s of
        None \<Rightarrow> (Inl AttributeError, s)
      | Some d \<Rightarrow>
          (case readLine d (pipe s) (host_closed s) of
             (r, d', p') \<Rightarrow> (r, s\<lparr>dataFIFO := Some d', pipe := p'\<rparr>)))"

subsection \<open>The interpreter's dispatch of an uncaught exception\<close>

text \<open>
  An exception that reaches the top level is passed to whatever \<^verbatim>\<open>sys.excepthook\<close>
  holds. When the hook itself raises, the interpreter prints that error together with
  the original exception and goes on.
\<close>

definition uncaught_exception :: "exc_info \<Rightarrow> session \<Rightarrow> session" where
  "uncaught_exception e s =
     (case excepthook s of
        DefaultExceptHook \<Rightarrow> snd (sys_default_excepthook e s)
      | GatkExceptionHook \<Rightarrow>
          (case gatkExceptionHook e s of
             (Inl err, s1) \<Rightarrow> s1\<lparr>stderr := stderr s1 @ [ErrorInExcepthook err e]\<rparr>
           | (Inr u, s1) \<Rightarrow> s1))"

subsection \<open>Runs, channel states and sample sessions\<close>

text \<open>
  The statements that one call of \<^verbatim>\<open>onTraversalStart\<close> executes, in order, each with
  the state in which it starts. The second statement is reached only when the first one
  did not raise.
\<close>

datatype step = OpenAckFIFO | InstallExceptHook

definition onTraversalStart_run :: "string \<Rightarrow> session \<Rightarrow> (step \<times> session) list" where
  "onTraversalStart_run name s =
     (OpenAckFIFO, s) #
     (case open_ackFIFO name s of
        (Inl err, s1) \<Rightarrow> []
      | (Inr u, s1) \<Rightarrow> [(InstallExceptHook, s1)])"

text \<open>
  A channel is open when its global holds an object whose file handle is not
  \<^verbatim>\<open>None\<close>. The writer is idle when nothing is left in its buffer.
\<close>

definition ack_channel_open :: "session \<Rightarrow> bool" where
  "ack_channel_open s = (case ackFIFO s of None \<Rightarrow> False | Some a \<Rightarrow> fileWriter a \<noteq> None)"

definition data_channel_open :: "session \<Rightarrow> bool" where
  "data_channel_open s = (case dataFIFO s of None \<Rightarrow> False | Some d \<Rightarrow> fileReader d \<noteq> None)"

definition writer_idle :: "session \<Rightarrow> bool" where
  "writer_idle s =
     (case ackFIFO s of
        None \<Rightarrow> True
      | Some a \<Rightarrow> (case fileWriter a of None \<Rightarrow> False | Some w \<Rightarrow> pending w = []))"

text \<open>
  A caller that reads \<open>n\<close> lines one after the other with \<^verbatim>\<open>readDataFIFO\<close>, stopping
  at the first call that raises. A line as the host writes it is newline-terminated: it
  ends in a line feed and has no other line feed.
\<close>

fun read_lines :: "nat \<Rightarrow> session \<Rightarrow> (error + string list) \<times> session" where
  "read_lines 0 s = (Inr [], s)"
| "read_lines (Suc n) s =
     (case readDataFIFO s of
        (Inl err, s1) \<Rightarrow> (Inl err, s1)
      | (Inr l, s1) \<Rightarrow>
          (case read_lines n s1 of
             (Inl err, s2) \<Rightarrow> (Inl err, s2)
           | (Inr ls, s2) \<Rightarrow> (Inr (l # ls), s2)))"

definition newline_terminated :: "string \<Rightarrow> bool" where
  "newline_terminated l = (l \<noteq> [] \<and> last l = LF \<and> LF \<notin> set (butlast l))"

text \<open>
  Sample values: a file system with two named pipes, and sessions on it. In
  \<open>data_session bytes\<close> the host has written the bytes and closed its end; in
  \<open>waiting_session bytes\<close> it has written them and keeps its end open.
\<close>

definition example_ack :: AckFIFO where
  "example_ack =
     \<lparr>ackFIFOName = ''/tmp/ack1'', fileWriter = Some \<lparr>wpath = ''/tmp/ack1'', pending = []\<rparr>\<rparr>"

definition example_data :: DataFIFO where
  "example_data = \<lparr>dataFIFOName = ''/tmp/data1'', fileReader = Some \<lparr>rpath = ''/tmp/data1''\<rparr>\<rparr>"

definition example_session :: session where
  "example_session =
     module_loaded (\<lambda>flag. {''/tmp/ack1'', ''/tmp/data1''}) (\<lambda>path. []) (\<lambda>path. True)"

definition started_session :: session where
  "started_session = snd (onTraversalStart ''/tmp/ack1'' example_session)"

definition closed_session :: session where
  "closed_session = snd (closeTool started_session)"

definition data_session :: "string \<Rightarrow> session" where
  "data_session bytes =
     snd (initializeDataFIFO ''/tmp/data1''
            (module_loaded (\<lambda>flag. {''/tmp/ack1'', ''/tmp/data1''})
               ((\<lambda>path. [])(''/tmp/data1'' := bytes)) (\<lambda>path. True)))"

definition waiting_session :: "string \<Rightarrow> session" where
  "waiting_session bytes = (data_session bytes)\<lparr>host_closed := (\<lambda>path. False)\<rparr>"

definition example_exception :: exc_info where
  "example_exception = (''ValueError'', ''bad record'', ''traceback'')"

section \<open>What each function does, case by case\<close>

lemma writeAck_open:
  "fileWriter a = Some w \<Longrightarrow>
   writeAck a p =
     (Inr (), a\<lparr>fileWriter := Some (w\<lparr>pending := []\<rparr>)\<rparr>,
      p(wpath w := p (wpath w) @ pending w @ ackString))"
  by (simp add: writeAck_def file_flush_def file_write_def)

lemma writeNack_open:
  "fileWriter a = Some w \<Longrightarrow>
   writeNack a p =
     (Inr (), a\<lparr>fileWriter := Some (w\<lparr>pending := []\<rparr>)\<rparr>,
      p(wpath w := p (wpath w) @ pending w @ nackString))"
  by (simp add: writeNack_def file_flush_def file_write_def)

lemma flushed_writer_same:
  "fileWriter a = Some w \<Longrightarrow> pending w = [] \<Longrightarrow>
   a\<lparr>fileWriter := Some (w\<lparr>pending := []\<rparr>)\<rparr> = a"
  by (cases a, cases w) simp

lemmas open_unfold =
  onTraversalStart_def onTraversalStart_run_def open_ackFIFO_def AckFIFO_init_def
  install_excepthook_def initializeDataFIFO_def DataFIFO_init_def os_open_def NUL_def

lemma os_open_errors:
  "os_open can_open name flag = Inl err \<Longrightarrow> err = ValueError \<or> err = OSError"
  by (auto simp: os_open_def split: if_splits)

lemma os_open_sample:
  "os_open (\<lambda>flag. {''/tmp/ack1'', ''/tmp/data1''}) ''/tmp/ack1'' flag = Inr ''/tmp/ack1''"
  "os_open (\<lambda>flag. {''/tmp/ack1'', ''/tmp/data1''}) ''/tmp/data1'' flag = Inr ''/tmp/data1''"
  "os_open (\<lambda>flag. {''/tmp/ack1'', ''/tmp/data1''}) ''/tmp/nowhere'' flag = Inl OSError"
  by (simp_all add: os_open_def NUL_def)

lemma open_ackFIFO_present:
  "os_open (openable s) name O_WRONLY = Inr fd \<Longrightarrow>
   open_ackFIFO name s =
     (Inr (), s\<lparr>ackFIFO := Some \<lparr>ackFIFOName = name,
                                  fileWriter = Some \<lparr>wpath = fd, pending = []\<rparr>\<rparr>\<rparr>)"
  by (simp add: open_ackFIFO_def AckFIFO_init_def)

lemma open_ackFIFO_missing:
  "os_open (openable s) name O_WRONLY = Inl err \<Longrightarrow> open_ackFIFO name s = (Inl err, s)"
  by (simp add: open_ackFIFO_def AckFIFO_init_def)

lemma onTraversalStart_present:
  "os_open (openable s) name O_WRONLY = Inr fd \<Longrightarrow>
   onTraversalStart name s =
     (Inr (), s\<lparr>ackFIFO := Some \<lparr>ackFIFOName = name,
                                  fileWriter = Some \<lparr>wpath = fd, pending = []\<rparr>\<rparr>,
                excepthook := GatkExceptionHook\<rparr>)"
  by (simp add: onTraversalStart_def open_ackFIFO_present install_excepthook_def)

lemma onTraversalStart_missing:
  "os_open (openable s) name O_WRONLY = Inl err \<Longrightarrow>
   onTraversalStart name s = (Inl err, s)"
  by (simp add: onTraversalStart_def open_ackFIFO_missing)

lemma initializeDataFIFO_present:
  "os_open (openable s) name O_RDONLY = Inr fd \<Longrightarrow>
   initializeDataFIFO name s =
     (Inr (), s\<lparr>dataFIFO := Some \<lparr>dataFIFOName = name,
                                   fileReader = Some \<lparr>rpath = fd\<rparr>\<rparr>\<rparr>)"
  by (simp add: initializeDataFIFO_def DataFIFO_init_def)

lemma initializeDataFIFO_missing:
  "os_open (openable s) name O_RDONLY = Inl err \<Longrightarrow>
   initializeDataFIFO name s = (Inl err, s)"
  by (simp add: initializeDataFIFO_def DataFIFO_init_def)

lemma closeTool_absent: "ackFIFO s = None \<Longrightarrow> closeTool s = (Inl AssertionError, s)"
  by (simp add: closeTool_def)

lemma closeDataFIFO_absent: "dataFIFO s = None \<Longrightarrow> closeDataFIFO s = (Inl AssertionError, s)"
  by (simp add: closeDataFIFO_def)

lemma closeTool_open:
  "ackFIFO s = Some a \<Longrightarrow> fileWriter a = Some w \<Longrightarrow>
   closeTool s =
     (Inr (), s\<lparr>ackFIFO := None, pipe := (pipe s)(wpath w := pipe s (wpath w) @ pending w)\<rparr>)"
  by (simp add: closeTool_def AckFIFO_close_def file_flush_def)

lemma closeDataFIFO_open:
  "dataFIFO s = Some d \<Longrightarrow> fileReader d = Some r \<Longrightarrow>
   closeDataFIFO s = (Inr (), s\<lparr>dataFIFO := None, pipe := pipe s\<rparr>)"
  by (simp add: closeDataFIFO_def DataFIFO_close_def)

lemma closeTool_success_clears:
  "fst (closeTool s) = Inr () \<Longrightarrow> ackFIFO (snd (closeTool s)) = None"
  by (auto simp: closeTool_def AckFIFO_close_def file_flush_def split: option.splits)

lemma closeDataFIFO_success_clears:
  "fst (closeDataFIFO s) = Inr () \<Longrightarrow> dataFIFO (snd (closeDataFIFO s)) = None"
  by (auto simp: closeDataFIFO_def DataFIFO_close_def split: option.splits)

lemma closeTool_when_open: "ack_channel_open s \<Longrightarrow> fst (closeTool s) = Inr ()"
  by (auto simp: ack_channel_open_def closeTool_open split: option.splits)

lemma closeDataFIFO_when_open: "data_channel_open s \<Longrightarrow> fst (closeDataFIFO s) = Inr ()"
  by (auto simp: data_channel_open_def closeDataFIFO_open split: option.splits)

lemma sendAck_absent: "ackFIFO s = None \<Longrightarrow> sendAck s = (Inl AttributeError, s)"
  by (simp add: sendAck_def)

lemma sendNack_absent: "ackFIFO s = None \<Longrightarrow> sendNack s = (Inl AttributeError, s)"
  by (simp add: sendNack_def)

lemma readDataFIFO_absent: "dataFIFO s = None \<Longrightarrow> readDataFIFO s = (Inl AttributeError, s)"
  by (simp add: readDataFIFO_def)

lemma gatkExceptionHook_absent:
  "ackFIFO s = None \<Longrightarrow> gatkExceptionHook e s = (Inl AttributeError, s)"
  by (simp add: gatkExceptionHook_def sendNack_absent)

lemma sendAck_open:
  "ackFIFO s = Some a \<Longrightarrow> fileWriter a = Some w \<Longrightarrow>
   sendAck s =
     (Inr (), s\<lparr>ackFIFO := Some (a\<lparr>fileWriter := Some (w\<lparr>pending := []\<rparr>)\<rparr>),
                pipe := (pipe s)(wpath w := pipe s (wpath w) @ pending w @ ackString)\<rparr>)"
  by (simp add: sendAck_def writeAck_def file_flush_def file_write_def)

lemma sendNack_open:
  "ackFIFO s = Some a \<Longrightarrow> fileWriter a = Some w \<Longrightarrow>
   sendNack s =
     (Inr (), s\<lparr>ackFIFO := Some (a\<lparr>fileWriter := Some (w\<lparr>pending := []\<rparr>)\<rparr>),
                pipe := (pipe s)(wpath w := pipe s (wpath w) @ pending w @ nackString)\<rparr>)"
  by (simp add: sendNack_def writeNack_def file_flush_def file_write_def)

subsection \<open>Reading a line\<close>

lemma readline_line:
  "LF \<notin> set l \<Longrightarrow> CR \<notin> set l \<Longrightarrow>
   readline eof (l @ LF # rest) = Some (l @ [LF], rest)"
  by (induction l) auto

lemma readline_waits:
  "LF \<notin> set bytes \<Longrightarrow> CR \<notin> set bytes \<Longrightarrow> readline False bytes = None"
  by (induction bytes) auto

lemma readLine_line:
  "fileReader d = Some r \<Longrightarrow> p (rpath r) = l @ LF # rest \<Longrightarrow> LF \<notin> set l \<Longrightarrow>
   CR \<notin> set l \<Longrightarrow> readLine d p closed = (Inr (l @ [LF]), d, p(rpath r := rest))"
  by (simp add: readLine_def file_readline_def readline_line)

lemma readLine_waits:
  "fileReader d = Some r \<Longrightarrow> LF \<notin> set (p (rpath r)) \<Longrightarrow> CR \<notin> set (p (rpath r)) \<Longrightarrow>
   \<not> closed (rpath r) \<Longrightarrow> readLine d p closed = (Inl Blocked, d, p)"
  by (simp add: readLine_def file_readline_def readline_waits)

lemma readLine_end:
  "fileReader d = Some r \<Longrightarrow> p (rpath r) = [] \<Longrightarrow> closed (rpath r) \<Longrightarrow>
   readLine d p closed = (Inr [], d, p)"
proof -
  assume h: "fileReader d = Some r" and e: "p (rpath r) = []" and c: "closed (rpath r)"
  have "p(rpath r := []) = p" using e by (metis fun_upd_triv)
  then show ?thesis using h e c by (simp add: readLine_def file_readline_def)
qed

lemma same_data_session:
  "dataFIFO s = Some d \<Longrightarrow> s\<lparr>dataFIFO := Some d, pipe := q\<rparr> = s\<lparr>pipe := q\<rparr>"
  by (cases s) simp

lemma readDataFIFO_line:
  "dataFIFO s = Some d \<Longrightarrow> fileReader d = Some r \<Longrightarrow> pipe s (rpath r) = l @ LF # rest \<Longrightarrow>
   LF \<notin> set l \<Longrightarrow> CR \<notin> set l \<Longrightarrow>
   readDataFIFO s = (Inr (l @ [LF]), s\<lparr>pipe := (pipe s)(rpath r := rest)\<rparr>)"
  by (simp add: readDataFIFO_def readLine_line same_data_session)

lemma readDataFIFO_waits:
  "dataFIFO s = Some d \<Longrightarrow> fileReader d = Some r \<Longrightarrow> LF \<notin> set (pipe s (rpath r)) \<Longrightarrow>
   CR \<notin> set (pipe s (rpath r)) \<Longrightarrow> \<not> host_closed s (rpath r) \<Longrightarrow>
   readDataFIFO s = (Inl Blocked, s)"
  by (cases s) (simp add: readDataFIFO_def readLine_waits)

lemma readDataFIFO_end:
  "dataFIFO s = Some d \<Longrightarrow> fileReader d = Some r \<Longrightarrow> pipe s (rpath r) = [] \<Longrightarrow>
   host_closed s (rpath r) \<Longrightarrow> readDataFIFO s = (Inr [], s)"
  by (cases s) (simp add: readDataFIFO_def readLine_end)

lemma newline_terminated_split:
  "newline_terminated l \<Longrightarrow> l = butlast l @ [LF] \<and> LF \<notin> set (butlast l)"
  by (metis append_butlast_last_id newline_terminated_def)

subsection \<open>What the functions keep\<close>

text \<open>
  The writer is idle in the freshly loaded module and after every function of the module,
  whether it returned or raised; so an ack channel that is present has an open handle
  with an empty buffer. Only \<^verbatim>\<open>onTraversalStart\<close> assigns \<^verbatim>\<open>sys.excepthook\<close>.
\<close>

lemma writer_idle_module_loaded: "writer_idle (module_loaded can_open p closed)"
  by (simp add: writer_idle_def module_loaded_def)

lemma writer_idle_preserved:
  assumes "writer_idle s"
  shows "writer_idle (snd (onTraversalStart name s))"
    and "writer_idle (snd (sendAck s))"
    and "writer_idle (snd (sendNack s))"
    and "writer_idle (snd (onTraversalSuccess s))"
    and "writer_idle (snd (closeTool s))"
    and "writer_idle (snd (initializeDataFIFO name s))"
    and "writer_idle (snd (closeDataFIFO s))"
    and "writer_idle (snd (readDataFIFO s))"
    and "writer_idle (snd (gatkExceptionHook e s))"
    and "writer_idle (uncaught_exception e s)"
  using assms
  by (auto simp: writer_idle_def onTraversalStart_def open_ackFIFO_def AckFIFO_init_def
      install_excepthook_def sendAck_def sendNack_def writeAck_def writeNack_def
      file_flush_def file_write_def onTraversalSuccess_def closeTool_def AckFIFO_close_def
      initializeDataFIFO_def DataFIFO_init_def os_open_def closeDataFIFO_def
      DataFIFO_close_def
      readDataFIFO_def readLine_def file_readline_def gatkExceptionHook_def
      sys_default_excepthook_def uncaught_exception_def
      split: option.splits prod.splits sum.splits excepthook.splits if_splits)

lemma writer_idle_open:
  "writer_idle s \<Longrightarrow> ackFIFO s = Some a \<Longrightarrow> \<exists>w. fileWriter a = Some w \<and> pending w = []"
  by (auto simp: writer_idle_def split: option.splits)

lemma excepthook_kept:
  "excepthook (snd (sendAck s)) = excepthook s"
  "excepthook (snd (sendNack s)) = excepthook s"
  "excepthook (snd (onTraversalSuccess s)) = excepthook s"
  "excepthook (snd (closeTool s)) = excepthook s"
  "excepthook (snd (initializeDataFIFO name s)) = excepthook s"
  "excepthook (snd (closeDataFIFO s)) = excepthook s"
  "excepthook (snd (readDataFIFO s)) = excepthook s"
  "excepthook (snd (gatkExceptionHook e s)) = excepthook s"
  "excepthook (uncaught_exception e s) = excepthook s"
  by (auto simp: sendAck_def sendNack_def writeAck_def writeNack_def
      file_flush_def file_write_def onTraversalSuccess_def closeTool_def AckFIFO_close_def
      initializeDataFIFO_def DataFIFO_init_def os_open_def closeDataFIFO_def
      DataFIFO_close_def
      readDataFIFO_def readLine_def file_readline_def gatkExceptionHook_def
      sys_default_excepthook_def uncaught_exception_def
      split: option.splits prod.splits sum.splits excepthook.splits if_splits)

lemma excepthook_onTraversalStart:
  "excepthook s = GatkExceptionHook \<Longrightarrow>
   excepthook (snd (onTraversalStart name s)) = GatkExceptionHook"
  by (auto simp: open_unfold split: if_splits)

lemma gatkExceptionHook_open:
  "ackFIFO s = Some a \<Longrightarrow> fileWriter a = Some w \<Longrightarrow>
   gatkExceptionHook e s = sys_default_excepthook e (snd (sendNack s))"
  by (simp add: gatkExceptionHook_def sendNack_open)

lemma idle_session_same:
  "ackFIFO s = Some a \<Longrightarrow> fileWriter a = Some w \<Longrightarrow> pending w = [] \<Longrightarrow>
   s\<lparr>ackFIFO := Some (a\<lparr>fileWriter := Some (w\<lparr>pending := []\<rparr>)\<rparr>), pipe := q\<rparr> = s\<lparr>pipe := q\<rparr>"
  by (cases s, cases a, cases w) simp

lemma sendNack_idle:
  "ackFIFO s = Some a \<Longrightarrow> fileWriter a = Some w \<Longrightarrow> pending w = [] \<Longrightarrow>
   sendNack s = (Inr (), s\<lparr>pipe := (pipe s)(wpath w := pipe s (wpath w) @ nackString)\<rparr>)"
  by (simp add: sendNack_open idle_session_same)

lemma onTraversalStart_run_present:
  "os_open (openable s) name O_WRONLY = Inr fd \<Longrightarrow>
   onTraversalStart_run name s =
     [(OpenAckFIFO, s),
      (InstallExceptHook,
       s\<lparr>ackFIFO := Some \<lparr>ackFIFOName = name,
                           fileWriter = Some \<lparr>wpath = fd, pending = []\<rparr>\<rparr>\<rparr>)]"
  by (simp add: onTraversalStart_run_def open_ackFIFO_present)

lemma onTraversalStart_run_missing:
  "os_open (openable s) name O_WRONLY = Inl err \<Longrightarrow>
   onTraversalStart_run name s = [(OpenAckFIFO, s)]"
  by (simp add: onTraversalStart_run_def open_ackFIFO_missing)

subsection \<open>The sample sessions, evaluated\<close>

lemma example_session_closed:
  "ackFIFO example_session = None" "dataFIFO example_session = None"
  by (simp_all add: example_session_def module_loaded_def)

lemma started_session_eq:
  "started_session =
     \<lparr>ackFIFO = Some \<lparr>ackFIFOName = ''/tmp/ack1'',
                      fileWriter = Some \<lparr>wpath = ''/tmp/ack1'', pending = []\<rparr>\<rparr>,
      dataFIFO = None, excepthook = GatkExceptionHook,
      openable = (\<lambda>flag. {''/tmp/ack1'', ''/tmp/data1''}), pipe = (\<lambda>path. []),
      host_closed = (\<lambda>path. True), stderr = []\<rparr>"
  by (simp add: started_session_def example_session_def module_loaded_def open_unfold)

lemma closed_session_eq:
  "closed_session =
     \<lparr>ackFIFO = None, dataFIFO = None, excepthook = GatkExceptionHook,
      openable = (\<lambda>flag. {''/tmp/ack1'', ''/tmp/data1''}), pipe = (\<lambda>path. []),
      host_closed = (\<lambda>path. True), stderr = []\<rparr>"
  by (simp add: closed_session_def started_session_eq closeTool_def AckFIFO_close_def
      file_flush_def fun_eq_iff)

lemma data_session_eq:
  "data_session bytes =
     \<lparr>ackFIFO = None,
      dataFIFO = Some \<lparr>dataFIFOName = ''/tmp/data1'',
                       fileReader = Some \<lparr>rpath = ''/tmp/data1''\<rparr>\<rparr>,
      excepthook = DefaultExceptHook,
      openable = (\<lambda>flag. {''/tmp/ack1'', ''/tmp/data1''}),
      pipe = (\<lambda>path. [])(''/tmp/data1'' := bytes),
      host_closed = (\<lambda>path. True), stderr = []\<rparr>"
  by (simp add: data_session_def module_loaded_def open_unfold)

lemma waiting_session_eq:
  "waiting_session bytes =
     \<lparr>ackFIFO = None,
      dataFIFO = Some \<lparr>dataFIFOName = ''/tmp/data1'',
                       fileReader = Some \<lparr>rpath = ''/tmp/data1''\<rparr>\<rparr>,
      excepthook = DefaultExceptHook,
      openable = (\<lambda>flag. {''/tmp/ack1'', ''/tmp/data1''}),
      pipe = (\<lambda>path. [])(''/tmp/data1'' := bytes),
      host_closed = (\<lambda>path. False), stderr = []\<rparr>"
  by (simp add: waiting_session_def data_session_eq)

section \<open>The exception handler\<close>

text \<open>
  C1, as the specification states it: after the hook is installed, every uncaught
  exception makes the handler write one \<^verbatim>\<open>nck\<close> and then call the interpreter's own
  handler. The hook stays installed when \<^verbatim>\<open>closeTool\<close> has cleared the ack global.
  In \<open>closed_session\<close>, reached by \<^verbatim>\<open>onTraversalStart\<close> and \<^verbatim>\<open>closeTool\<close>, both
  returning normally, the handler raises \<^verbatim>\<open>AttributeError\<close> in \<^verbatim>\<open>sendNack\<close>:
  no pipe receives anything, and \<^verbatim>\<open>sys.__excepthook__\<close> is not reached, so no
  traceback is printed by it.
\<close>

theorem gatkExceptionHook_after_close_counterexample:
  "fst (onTraversalStart ''/tmp/ack1'' example_session) = Inr ()
   \<and> fst (closeTool started_session) = Inr ()
   \<and> excepthook closed_session = GatkExceptionHook
   \<and> gatkExceptionHook example_exception closed_session = (Inl AttributeError, closed_session)
   \<and> pipe (uncaught_exception example_exception closed_session) = pipe closed_session
   \<and> pipe closed_session ''/tmp/ack1'' = []
   \<and> Traceback example_exception
        \<notin> set (stderr (uncaught_exception example_exception closed_session))"
  by (simp add: closed_session_eq started_session_eq example_session_def module_loaded_def
      open_unfold closeTool_open gatkExceptionHook_absent uncaught_exception_def)

text \<open>
  C1, amended. While \<^verbatim>\<open>gatkExceptionHook\<close> is installed and the ack channel is open
  (the global holds a channel with an open, idle writer), an uncaught exception is
  dispatched to the handler, which first sends the nack, so that the ack pipe grows by
  exactly \<^verbatim>\<open>nck\<close>, and then calls \<^verbatim>\<open>sys.__excepthook__\<close> on the state after the nack,
  which prints the traceback of the exception. Nothing else changes, and the handler
  returns normally.
\<close>

theorem gatkExceptionHook_nack_then_default:
  assumes hook: "excepthook s = GatkExceptionHook"
    and chan: "ackFIFO s = Some a"
    and handle: "fileWriter a = Some w"
    and idle: "pending w = []"
  shows "sendNack s = (Inr (), s\<lparr>pipe := (pipe s)(wpath w := pipe s (wpath w) @ ''nck'')\<rparr>)
    \<and> gatkExceptionHook e s = sys_default_excepthook e (snd (sendNack s))
    \<and> gatkExceptionHook e s =
        (Inr (), s\<lparr>pipe := (pipe s)(wpath w := pipe s (wpath w) @ ''nck''),
                   stderr := stderr s @ [Traceback e]\<rparr>)
    \<and> uncaught_exception e s = snd (gatkExceptionHook e s)"
proof -
  have nack: "sendNack s = (Inr (), s\<lparr>pipe := (pipe s)(wpath w := pipe s (wpath w) @ ''nck'')\<rparr>)"
    using sendNack_idle [OF chan handle idle] by (simp add: nackString_def)
  have chain: "gatkExceptionHook e s = sys_default_excepthook e (snd (sendNack s))"
    using chan handle by (rule gatkExceptionHook_open)
  have result: "gatkExceptionHook e s =
        (Inr (), s\<lparr>pipe := (pipe s)(wpath w := pipe s (wpath w) @ ''nck''),
                   stderr := stderr s @ [Traceback e]\<rparr>)"
    by (simp add: chain nack sys_default_excepthook_def)
  have dispatch: "uncaught_exception e s = snd (gatkExceptionHook e s)"
    by (simp add: uncaught_exception_def hook result)
  from nack chain result dispatch show ?thesis by simp
qed

theorem gatkExceptionHook_nack_then_default_witness:
  "excepthook started_session = GatkExceptionHook
   \<and> pipe (uncaught_exception example_exception started_session) ''/tmp/ack1'' = ''nck''
   \<and> stderr (uncaught_exception example_exception started_session) =
       [Traceback example_exception]"
  using gatkExceptionHook_nack_then_default
    [of started_session example_ack "\<lparr>wpath = ''/tmp/ack1'', pending = []\<rparr>" example_exception]
  by (simp add: started_session_eq example_ack_def sys_default_excepthook_def)

section \<open>The tokens on the acknowledgment channel\<close>

text \<open>
  C2. On an open channel \<^verbatim>\<open>writeAck\<close> hands the three characters \<^verbatim>\<open>ack\<close> to the
  writer and flushes: the buffer is empty afterwards, and the pipe has received what
  the buffer held followed by the token. With an idle writer, as the module always
  leaves it, the pipe grows by exactly \<^verbatim>\<open>ack\<close> and the channel object is as before.
  \<^verbatim>\<open>writeNack\<close> does the same with \<^verbatim>\<open>nck\<close>. On a channel whose handle is
  \<^verbatim>\<open>None\<close> both raise \<^verbatim>\<open>AssertionError\<close> and change nothing.
\<close>

theorem ack_tokens_written_and_flushed:
  "(fileWriter a = Some w \<longrightarrow>
      writeAck a p =
        (Inr (), a\<lparr>fileWriter := Some (w\<lparr>pending := []\<rparr>)\<rparr>,
         p(wpath w := p (wpath w) @ pending w @ ''ack''))
      \<and> writeNack a p =
        (Inr (), a\<lparr>fileWriter := Some (w\<lparr>pending := []\<rparr>)\<rparr>,
         p(wpath w := p (wpath w) @ pending w @ ''nck'')))
   \<and> (fileWriter a = Some w \<and> pending w = [] \<longrightarrow>
      writeAck a p = (Inr (), a, p(wpath w := p (wpath w) @ ''ack''))
      \<and> writeNack a p = (Inr (), a, p(wpath w := p (wpath w) @ ''nck'')))
   \<and> (fileWriter a = None \<longrightarrow>
      writeAck a p = (Inl AssertionError, a, p)
      \<and> writeNack a p = (Inl AssertionError, a, p))
   \<and> length ackString = 3 \<and> length nackString = 3"
proof -
  have open_general: "fileWriter a = Some w \<longrightarrow>
      writeAck a p =
        (Inr (), a\<lparr>fileWriter := Some (w\<lparr>pending := []\<rparr>)\<rparr>,
         p(wpath w := p (wpath w) @ pending w @ ''ack''))
      \<and> writeNack a p =
        (Inr (), a\<lparr>fileWriter := Some (w\<lparr>pending := []\<rparr>)\<rparr>,
         p(wpath w := p (wpath w) @ pending w @ ''nck''))"
    using writeAck_open [of a w p] writeNack_open [of a w p]
    by (simp add: ackString_def nackString_def)
  have open_flushed: "fileWriter a = Some w \<and> pending w = [] \<longrightarrow>
      writeAck a p = (Inr (), a, p(wpath w := p (wpath w) @ ''ack''))
      \<and> writeNack a p = (Inr (), a, p(wpath w := p (wpath w) @ ''nck''))"
    using open_general flushed_writer_same [of a w] by simp
  have closed: "fileWriter a = None \<longrightarrow>
      writeAck a p = (Inl AssertionError, a, p)
      \<and> writeNack a p = (Inl AssertionError, a, p)"
    by (simp add: writeAck_def writeNack_def)
  have len: "length ackString = 3 \<and> length nackString = 3"
    by (simp add: ackString_def nackString_def)
  from open_general open_flushed closed len show ?thesis by blast
qed

theorem ack_tokens_written_and_flushed_witness:
  "fileWriter example_ack = Some \<lparr>wpath = ''/tmp/ack1'', pending = []\<rparr>
   \<and> writeAck example_ack (\<lambda>path. []) =
       (Inr (), example_ack, (\<lambda>path. [])(''/tmp/ack1'' := ''ack''))
   \<and> writeNack example_ack ((\<lambda>path. [])(''/tmp/ack1'' := ''ack'')) =
       (Inr (), example_ack, (\<lambda>path. [])(''/tmp/ack1'' := ''acknck''))
   \<and> writeAck (example_ack\<lparr>fileWriter := None\<rparr>) (\<lambda>path. []) =
       (Inl AssertionError, example_ack\<lparr>fileWriter := None\<rparr>, (\<lambda>path. []))"
  using ack_tokens_written_and_flushed
          [of example_ack "\<lparr>wpath = ''/tmp/ack1'', pending = []\<rparr>" "\<lambda>path. []"]
        ack_tokens_written_and_flushed
          [of example_ack "\<lparr>wpath = ''/tmp/ack1'', pending = []\<rparr>"
              "(\<lambda>path. [])(''/tmp/ack1'' := ''ack'')"]
        ack_tokens_written_and_flushed
          [of "example_ack\<lparr>fileWriter := None\<rparr>" "\<lparr>wpath = ''/tmp/ack1'', pending = []\<rparr>"
              "\<lambda>path. []"]
  by (simp add: example_ack_def)

section \<open>Opening and closing the channels\<close>

text \<open>
  C3. In every call of \<^verbatim>\<open>onTraversalStart\<close> the first statement executed is the
  opening of the ack channel. The statement that installs the hook is executed only in
  a state in which the ack channel is open, and the call ends in that state with the
  hook set. When the call returns normally, the hook is installed and the channel is
  open. When the opening raises, the installing statement is not executed and the state
  is as it was before the call.
\<close>

theorem hook_installed_after_channel_open:
  "(\<forall>(st, s1) \<in> set (onTraversalStart_run name s).
       st = InstallExceptHook \<longrightarrow>
         ack_channel_open s1
         \<and> snd (onTraversalStart name s) = s1\<lparr>excepthook := GatkExceptionHook\<rparr>)
   \<and> (fst (onTraversalStart name s) = Inr () \<longrightarrow>
        InstallExceptHook \<in> fst ` set (onTraversalStart_run name s)
        \<and> excepthook (snd (onTraversalStart name s)) = GatkExceptionHook
        \<and> ack_channel_open (snd (onTraversalStart name s)))
   \<and> (fst (onTraversalStart name s) \<noteq> Inr () \<longrightarrow>
        InstallExceptHook \<notin> fst ` set (onTraversalStart_run name s)
        \<and> snd (onTraversalStart name s) = s)
   \<and> take 1 (map fst (onTraversalStart_run name s)) = [OpenAckFIFO]"
proof (cases "os_open (openable s) name O_WRONLY")
  case (Inr fd)
  then show ?thesis
    by (simp add: onTraversalStart_run_present [OF Inr] onTraversalStart_present [OF Inr]
        ack_channel_open_def)
next
  case (Inl err)
  then show ?thesis
    by (simp add: onTraversalStart_run_missing [OF Inl] onTraversalStart_missing [OF Inl])
qed

theorem hook_installed_after_channel_open_witness:
  "onTraversalStart_run ''/tmp/ack1'' example_session =
     [(OpenAckFIFO, example_session),
      (InstallExceptHook, started_session\<lparr>excepthook := DefaultExceptHook\<rparr>)]
   \<and> ack_channel_open (started_session\<lparr>excepthook := DefaultExceptHook\<rparr>)
   \<and> \<not> ack_channel_open example_session
   \<and> fst (onTraversalStart ''/tmp/ack1'' example_session) = Inr ()
   \<and> excepthook started_session = GatkExceptionHook
   \<and> fst (onTraversalStart ''/tmp/nowhere'' example_session) = Inl OSError
   \<and> excepthook (snd (onTraversalStart ''/tmp/nowhere'' example_session)) = DefaultExceptHook"
  using hook_installed_after_channel_open [of "''/tmp/ack1''" example_session]
    hook_installed_after_channel_open [of "''/tmp/nowhere''" example_session]
  by (simp add: started_session_eq example_session_def module_loaded_def open_unfold
      ack_channel_open_def)

text \<open>
  C4, as the specification states it: opening a channel that is already open raises an
  assertion error. The code has no such check. In \<open>started_session\<close> the ack channel
  is open, and a second \<^verbatim>\<open>onTraversalStart\<close> returns normally; so does a second
  \<^verbatim>\<open>initializeDataFIFO\<close> on an open data channel.
\<close>

theorem open_while_open_counterexample:
  "ack_channel_open started_session
   \<and> fst (onTraversalStart ''/tmp/ack1'' started_session) = Inr ()
   \<and> fst (onTraversalStart ''/tmp/ack1'' started_session) \<noteq> Inl AssertionError
   \<and> data_channel_open (data_session [])
   \<and> fst (initializeDataFIFO ''/tmp/data1'' (data_session [])) = Inr ()
   \<and> fst (initializeDataFIFO ''/tmp/data1'' (data_session [])) \<noteq> Inl AssertionError"
  by (simp add: started_session_eq data_session_eq ack_channel_open_def
      data_channel_open_def open_unfold)

text \<open>
  C4, amended. Opening a channel that is already open, by \<^verbatim>\<open>onTraversalStart\<close> while
  the ack channel is open or by \<^verbatim>\<open>initializeDataFIFO\<close> while the data channel is
  open, does not raise an assertion error: neither function ever raises one, and whenever
  \<^verbatim>\<open>os.open\<close> opens the given path the call returns normally and the global holds the
  newly opened channel in place of the one it held.
\<close>

theorem open_while_open_replaces:
  "fst (onTraversalStart name s) \<noteq> Inl AssertionError
   \<and> fst (initializeDataFIFO name s) \<noteq> Inl AssertionError
   \<and> (ack_channel_open s \<and> os_open (openable s) name O_WRONLY = Inr fd \<longrightarrow>
        fst (onTraversalStart name s) = Inr ()
        \<and> ackFIFO (snd (onTraversalStart name s)) =
            Some \<lparr>ackFIFOName = name, fileWriter = Some \<lparr>wpath = fd, pending = []\<rparr>\<rparr>)
   \<and> (data_channel_open s \<and> os_open (openable s) name O_RDONLY = Inr fd \<longrightarrow>
        fst (initializeDataFIFO name s) = Inr ()
        \<and> dataFIFO (snd (initializeDataFIFO name s)) =
            Some \<lparr>dataFIFOName = name, fileReader = Some \<lparr>rpath = fd\<rparr>\<rparr>)"
proof -
  have start_no_assert: "fst (onTraversalStart name s) \<noteq> Inl AssertionError"
  proof (cases "os_open (openable s) name O_WRONLY")
    case (Inl err)
    with os_open_errors [OF Inl] show ?thesis
      by (auto simp: onTraversalStart_missing [OF Inl])
  next
    case (Inr d)
    then show ?thesis by (simp add: onTraversalStart_present [OF Inr])
  qed
  have init_no_assert: "fst (initializeDataFIFO name s) \<noteq> Inl AssertionError"
  proof (cases "os_open (openable s) name O_RDONLY")
    case (Inl err)
    with os_open_errors [OF Inl] show ?thesis
      by (auto simp: initializeDataFIFO_missing [OF Inl])
  next
    case (Inr d)
    then show ?thesis by (simp add: initializeDataFIFO_present [OF Inr])
  qed
  have start_replaces: "os_open (openable s) name O_WRONLY = Inr fd \<longrightarrow>
        fst (onTraversalStart name s) = Inr ()
        \<and> ackFIFO (snd (onTraversalStart name s)) =
            Some \<lparr>ackFIFOName = name, fileWriter = Some \<lparr>wpath = fd, pending = []\<rparr>\<rparr>"
    by (simp add: onTraversalStart_present)
  have init_replaces: "os_open (openable s) name O_RDONLY = Inr fd \<longrightarrow>
        fst (initializeDataFIFO name s) = Inr ()
        \<and> dataFIFO (snd (initializeDataFIFO name s)) =
            Some \<lparr>dataFIFOName = name, fileReader = Some \<lparr>rpath = fd\<rparr>\<rparr>"
    by (simp add: initializeDataFIFO_present)
  from start_no_assert init_no_assert start_replaces init_replaces show ?thesis
    by blast
qed

theorem open_while_open_replaces_witness:
  "ack_channel_open started_session
   \<and> os_open (openable started_session) ''/tmp/data1'' O_WRONLY = Inr ''/tmp/data1''
   \<and> ackFIFO started_session =
       Some \<lparr>ackFIFOName = ''/tmp/ack1'',
             fileWriter = Some \<lparr>wpath = ''/tmp/ack1'', pending = []\<rparr>\<rparr>
   \<and> fst (onTraversalStart ''/tmp/data1'' started_session) = Inr ()
   \<and> ackFIFO (snd (onTraversalStart ''/tmp/data1'' started_session)) =
       Some \<lparr>ackFIFOName = ''/tmp/data1'',
             fileWriter = Some \<lparr>wpath = ''/tmp/data1'', pending = []\<rparr>\<rparr>
   \<and> data_channel_open (data_session [])
   \<and> os_open (openable (data_session [])) ''/tmp/ack1'' O_RDONLY = Inr ''/tmp/ack1''
   \<and> fst (initializeDataFIFO ''/tmp/ack1'' (data_session [])) = Inr ()
   \<and> dataFIFO (snd (initializeDataFIFO ''/tmp/ack1'' (data_session []))) =
       Some \<lparr>dataFIFOName = ''/tmp/ack1'', fileReader = Some \<lparr>rpath = ''/tmp/ack1''\<rparr>\<rparr>"
proof -
  have ack_open: "ack_channel_open started_session"
    "ackFIFO started_session =
       Some \<lparr>ackFIFOName = ''/tmp/ack1'',
             fileWriter = Some \<lparr>wpath = ''/tmp/ack1'', pending = []\<rparr>\<rparr>"
    by (simp_all add: ack_channel_open_def started_session_eq)
  have ack_path: "os_open (openable started_session) ''/tmp/data1'' O_WRONLY = Inr ''/tmp/data1''"
    by (simp add: started_session_eq os_open_sample)
  have data_open: "data_channel_open (data_session [])"
    by (simp add: data_channel_open_def data_session_eq)
  have data_path: "os_open (openable (data_session [])) ''/tmp/ack1'' O_RDONLY = Inr ''/tmp/ack1''"
    by (simp add: data_session_eq os_open_sample)
  show ?thesis
    using ack_open ack_path data_open data_path
      open_while_open_replaces [of "''/tmp/data1''" started_session "''/tmp/data1''"]
      open_while_open_replaces [of "''/tmp/ack1''" "data_session []" "''/tmp/ack1''"]
    by blast
qed

text \<open>
  C5. \<^verbatim>\<open>closeTool\<close> with the ack global \<^verbatim>\<open>None\<close>, and \<^verbatim>\<open>closeDataFIFO\<close> with the
  data global \<^verbatim>\<open>None\<close>, raise \<^verbatim>\<open>AssertionError\<close> and change nothing. A close that
  returns normally leaves the global \<^verbatim>\<open>None\<close>, so the same close called again raises
  \<^verbatim>\<open>AssertionError\<close>. On an open channel the close does return normally.
\<close>

theorem close_while_closed_faults:
  "(ackFIFO s = None \<longrightarrow> closeTool s = (Inl AssertionError, s))
   \<and> (dataFIFO s = None \<longrightarrow> closeDataFIFO s = (Inl AssertionError, s))
   \<and> (fst (closeTool s) = Inr () \<longrightarrow>
        ackFIFO (snd (closeTool s)) = None
        \<and> fst (closeTool (snd (closeTool s))) = Inl AssertionError)
   \<and> (fst (closeDataFIFO s) = Inr () \<longrightarrow>
        dataFIFO (snd (closeDataFIFO s)) = None
        \<and> fst (closeDataFIFO (snd (closeDataFIFO s))) = Inl AssertionError)
   \<and> (ack_channel_open s \<longrightarrow> fst (closeTool s) = Inr ())
   \<and> (data_channel_open s \<longrightarrow> fst (closeDataFIFO s) = Inr ())"
proof -
  have ack_twice: "fst (closeTool s) = Inr () \<longrightarrow>
        ackFIFO (snd (closeTool s)) = None
        \<and> fst (closeTool (snd (closeTool s))) = Inl AssertionError"
  proof
    assume ok: "fst (closeTool s) = Inr ()"
    then have cleared: "ackFIFO (snd (closeTool s)) = None"
      by (rule closeTool_success_clears)
    then show "ackFIFO (snd (closeTool s)) = None
        \<and> fst (closeTool (snd (closeTool s))) = Inl AssertionError"
      by (simp add: closeTool_absent)
  qed
  have data_twice: "fst (closeDataFIFO s) = Inr () \<longrightarrow>
        dataFIFO (snd (closeDataFIFO s)) = None
        \<and> fst (closeDataFIFO (snd (closeDataFIFO s))) = Inl AssertionError"
  proof
    assume ok: "fst (closeDataFIFO s) = Inr ()"
    then have cleared: "dataFIFO (snd (closeDataFIFO s)) = None"
      by (rule closeDataFIFO_success_clears)
    then show "dataFIFO (snd (closeDataFIFO s)) = None
        \<and> fst (closeDataFIFO (snd (closeDataFIFO s))) = Inl AssertionError"
      by (simp add: closeDataFIFO_absent)
  qed
  from ack_twice data_twice show ?thesis
    by (simp add: closeTool_absent closeDataFIFO_absent closeTool_when_open
        closeDataFIFO_when_open)
qed

theorem close_while_closed_faults_witness:
  "ackFIFO example_session = None
   \<and> closeTool example_session = (Inl AssertionError, example_session)
   \<and> closeDataFIFO example_session = (Inl AssertionError, example_session)
   \<and> ack_channel_open started_session
   \<and> fst (closeTool started_session) = Inr ()
   \<and> fst (closeTool (snd (closeTool started_session))) = Inl AssertionError
   \<and> data_channel_open (data_session [])
   \<and> fst (closeDataFIFO (data_session [])) = Inr ()
   \<and> fst (closeDataFIFO (snd (closeDataFIFO (data_session [])))) = Inl AssertionError"
proof -
  have b: "ack_channel_open started_session"
    by (simp add: ack_channel_open_def started_session_eq)
  have c: "data_channel_open (data_session [])"
    by (simp add: data_channel_open_def data_session_eq)
  show ?thesis
    using example_session_closed b c close_while_closed_faults [of example_session]
      close_while_closed_faults [of started_session]
      close_while_closed_faults [of "data_session []"]
    by simp
qed

section \<open>Reading the data channel\<close>

text \<open>
  C6, as the specification states it: \<^verbatim>\<open>readLine\<close> returns exactly the bytes the
  host wrote up to and including the line feed. The reader is a text-mode file, which
  ends a line at a carriage return too and returns every line ending as one line feed.
  The host writes \<^verbatim>\<open>A\<close>, a carriage return and a line feed; the call returns \<^verbatim>\<open>A\<close>
  and a line feed, which is not what was written.
\<close>

theorem readLine_carriage_return_counterexample:
  "data_channel_open (data_session [CHR ''A'', CR, LF])
   \<and> pipe (data_session [CHR ''A'', CR, LF]) ''/tmp/data1'' = [CHR ''A'', CR] @ LF # []
   \<and> LF \<notin> set [CHR ''A'', CR]
   \<and> fst (readLine example_data ((\<lambda>path. [])(''/tmp/data1'' := [CHR ''A'', CR, LF]))
             (\<lambda>path. True))
       = Inr [CHR ''A'', LF]
   \<and> fst (readLine example_data ((\<lambda>path. [])(''/tmp/data1'' := [CHR ''A'', CR, LF]))
             (\<lambda>path. False))
       = Inr [CHR ''A'', LF]
   \<and> fst (readDataFIFO (data_session [CHR ''A'', CR, LF])) = Inr [CHR ''A'', LF]
   \<and> fst (readDataFIFO (data_session [CHR ''A'', CR, LF])) \<noteq> Inr ([CHR ''A'', CR] @ [LF])"
  by (simp add: data_session_eq data_channel_open_def example_data_def readDataFIFO_def
      readLine_def file_readline_def LF_def CR_def)

text \<open>
  C6, amended. For every open data channel, \<^verbatim>\<open>readLine\<close> blocks, which is to say that
  while the pipe holds no line ending and the host has not closed its end the call does
  not return, and it returns exactly one newline-terminated line as text, including the
  trailing line feed: the exact bytes written by the host up to and including the line
  feed, provided that no carriage return is among them. If the channel has reached the
  end of the stream, it returns the empty string. \<^verbatim>\<open>readDataFIFO\<close> passes the same
  outcome on.
\<close>

theorem readLine_returns_line:
  "(fileReader d = Some r \<and> p (rpath r) = l @ LF # rest \<and> LF \<notin> set l \<and> CR \<notin> set l \<longrightarrow>
      readLine d p closed = (Inr (l @ [LF]), d, p(rpath r := rest)))
   \<and> (fileReader d = Some r \<and> LF \<notin> set (p (rpath r)) \<and> CR \<notin> set (p (rpath r))
        \<and> \<not> closed (rpath r) \<longrightarrow>
      readLine d p closed = (Inl Blocked, d, p))
   \<and> (fileReader d = Some r \<and> p (rpath r) = [] \<and> closed (rpath r) \<longrightarrow>
      readLine d p closed = (Inr [], d, p))
   \<and> (dataFIFO s = Some d \<and> fileReader d = Some r \<and> pipe s (rpath r) = l @ LF # rest
        \<and> LF \<notin> set l \<and> CR \<notin> set l \<longrightarrow>
      readDataFIFO s = (Inr (l @ [LF]), s\<lparr>pipe := (pipe s)(rpath r := rest)\<rparr>))
   \<and> (dataFIFO s = Some d \<and> fileReader d = Some r \<and> LF \<notin> set (pipe s (rpath r))
        \<and> CR \<notin> set (pipe s (rpath r)) \<and> \<not> host_closed s (rpath r) \<longrightarrow>
      readDataFIFO s = (Inl Blocked, s))
   \<and> (dataFIFO s = Some d \<and> fileReader d = Some r \<and> pipe s (rpath r) = []
        \<and> host_closed s (rpath r) \<longrightarrow>
      readDataFIFO s = (Inr [], s))"
  using readLine_line [of d r p l rest closed] readLine_waits [of d r p closed]
    readLine_end [of d r p closed] readDataFIFO_line [of s d r l rest]
    readDataFIFO_waits [of s d r] readDataFIFO_end [of s d r]
  by blast

theorem readLine_returns_line_witness:
  "readLine example_data ((\<lambda>path. [])(''/tmp/data1'' := [CHR ''A'', LF, CHR ''B'', LF]))
       (\<lambda>path. False) =
     (Inr [CHR ''A'', LF], example_data, (\<lambda>path. [])(''/tmp/data1'' := [CHR ''B'', LF]))
   \<and> fst (readDataFIFO (waiting_session [CHR ''A'', LF, CHR ''B'', LF])) = Inr [CHR ''A'', LF]
   \<and> pipe (snd (readDataFIFO (waiting_session [CHR ''A'', LF, CHR ''B'', LF]))) ''/tmp/data1''
       = [CHR ''B'', LF]
   \<and> readDataFIFO (waiting_session [CHR ''A'']) = (Inl Blocked, waiting_session [CHR ''A''])
   \<and> readDataFIFO (waiting_session []) = (Inl Blocked, waiting_session [])
   \<and> readLine example_data (\<lambda>path. []) (\<lambda>path. True) = (Inr [], example_data, (\<lambda>path. []))
   \<and> readDataFIFO (data_session []) = (Inr [], data_session [])"
proof -
  have chars: "LF \<notin> set [CHR ''A'']" "CR \<notin> set [CHR ''A'']"
    by (simp_all add: LF_def CR_def)
  have obj: "fileReader example_data = Some \<lparr>rpath = ''/tmp/data1''\<rparr>"
    by (simp add: example_data_def)
  have closed_glob: "dataFIFO (data_session bytes) = Some example_data"
    "pipe (data_session bytes) = (\<lambda>path. [])(''/tmp/data1'' := bytes)"
    "host_closed (data_session bytes) = (\<lambda>path. True)" for bytes
    by (simp_all add: data_session_eq example_data_def)
  have waiting_glob: "dataFIFO (waiting_session bytes) = Some example_data"
    "pipe (waiting_session bytes) = (\<lambda>path. [])(''/tmp/data1'' := bytes)"
    "host_closed (waiting_session bytes) = (\<lambda>path. False)" for bytes
    by (simp_all add: waiting_session_eq example_data_def)
  note line = readLine_returns_line
    [of example_data "\<lparr>rpath = ''/tmp/data1''\<rparr>"
        "(\<lambda>path. [])(''/tmp/data1'' := [CHR ''A'', LF, CHR ''B'', LF])"
        "[CHR ''A'']" "[CHR ''B'', LF]" "\<lambda>path. False"
        "waiting_session [CHR ''A'', LF, CHR ''B'', LF]"]
  note half = readLine_returns_line
    [of example_data "\<lparr>rpath = ''/tmp/data1''\<rparr>" "\<lambda>path. []" "[]" "[]" "\<lambda>path. False"
        "waiting_session [CHR ''A'']"]
  note idle = readLine_returns_line
    [of example_data "\<lparr>rpath = ''/tmp/data1''\<rparr>" "\<lambda>path. []" "[]" "[]" "\<lambda>path. False"
        "waiting_session []"]
  note ended = readLine_returns_line
    [of example_data "\<lparr>rpath = ''/tmp/data1''\<rparr>" "\<lambda>path. []" "[]" "[]" "\<lambda>path. True"
        "data_session []"]
  have first: "readLine example_data
        ((\<lambda>path. [])(''/tmp/data1'' := [CHR ''A'', LF, CHR ''B'', LF])) (\<lambda>path. False) =
      (Inr [CHR ''A'', LF], example_data, (\<lambda>path. [])(''/tmp/data1'' := [CHR ''B'', LF]))
    \<and> fst (readDataFIFO (waiting_session [CHR ''A'', LF, CHR ''B'', LF])) = Inr [CHR ''A'', LF]
    \<and> pipe (snd (readDataFIFO (waiting_session [CHR ''A'', LF, CHR ''B'', LF]))) ''/tmp/data1''
        = [CHR ''B'', LF]"
    using chars obj waiting_glob line by simp
  have second: "readDataFIFO (waiting_session [CHR ''A'']) = (Inl Blocked, waiting_session [CHR ''A''])"
    using chars obj waiting_glob half by simp
  have third: "readDataFIFO (waiting_session []) = (Inl Blocked, waiting_session [])"
    using obj waiting_glob idle by simp
  have fourth: "readLine example_data (\<lambda>path. []) (\<lambda>path. True) = (Inr [], example_data, (\<lambda>path. []))
    \<and> readDataFIFO (data_session []) = (Inr [], data_session [])"
    using obj closed_glob ended by simp
  from first second third fourth show ?thesis by simp
qed

text \<open>
  C7, as the specification states it: any newline-terminated lines written by the host
  are read back unchanged. A line that holds a carriage return is newline-terminated,
  and it is read back with its ending replaced by a single line feed.
\<close>

theorem round_trip_carriage_return_counterexample:
  "newline_terminated [CHR ''A'', CR, LF]
   \<and> pipe (data_session (concat [[CHR ''A'', CR, LF]])) ''/tmp/data1''
       = concat [[CHR ''A'', CR, LF]]
   \<and> fst (read_lines (length [[CHR ''A'', CR, LF]])
            (data_session (concat [[CHR ''A'', CR, LF]]))) = Inr [[CHR ''A'', LF]]
   \<and> fst (read_lines (length [[CHR ''A'', CR, LF]])
            (data_session (concat [[CHR ''A'', CR, LF]]))) \<noteq> Inr [[CHR ''A'', CR, LF]]"
  by (simp add: data_session_eq newline_terminated_def readDataFIFO_def
      readLine_def file_readline_def LF_def CR_def)

text \<open>
  C7, amended. When the host has written a sequence of newline-terminated lines none of
  which holds a carriage return, as many calls of \<^verbatim>\<open>readDataFIFO\<close> as there are
  lines return exactly those lines in the order written, and what the host wrote after
  them is left in the pipe.
\<close>

theorem round_trip_plain_lines:
  "dataFIFO s = Some d \<Longrightarrow> fileReader d = Some r \<Longrightarrow>
   \<forall>l \<in> set ls. newline_terminated l \<and> CR \<notin> set l \<Longrightarrow>
   pipe s (rpath r) = concat ls @ rest \<Longrightarrow>
   read_lines (length ls) s = (Inr ls, s\<lparr>pipe := (pipe s)(rpath r := rest)\<rparr>)"
proof (induction ls arbitrary: s)
  case Nil
  have "(pipe s)(rpath r := rest) = pipe s"
    using Nil.prems(4) by (metis append_Nil concat.simps(1) fun_upd_triv)
  then show ?case by simp
next
  case (Cons l ls)
  let ?body = "butlast l"
  let ?s1 = "s\<lparr>pipe := (pipe s)(rpath r := concat ls @ rest)\<rparr>"
  from Cons.prems(3) have nt: "newline_terminated l" and nocr: "CR \<notin> set l"
    by simp_all
  from nt have l_eq: "l = ?body @ [LF]" and nolf: "LF \<notin> set ?body"
    using newline_terminated_split by blast+
  from nocr have nocr': "CR \<notin> set ?body"
    by (meson in_set_butlastD)
  have content: "pipe s (rpath r) = ?body @ LF # (concat ls @ rest)"
    using Cons.prems(4) l_eq by (metis append.assoc append_Cons append_Nil concat.simps(2))
  have first: "readDataFIFO s = (Inr l, ?s1)"
    using readDataFIFO_line [OF Cons.prems(1) Cons.prems(2) content nolf nocr'] l_eq
    by simp
  have later: "read_lines (length ls) ?s1
      = (Inr ls, ?s1\<lparr>pipe := (pipe ?s1)(rpath r := rest)\<rparr>)"
    using Cons.prems by (intro Cons.IH) simp_all
  have final: "?s1\<lparr>pipe := (pipe ?s1)(rpath r := rest)\<rparr>
      = s\<lparr>pipe := (pipe s)(rpath r := rest)\<rparr>"
    by simp
  have later_run: "read_lines (length ls) ?s1
      = (Inr ls, s\<lparr>pipe := (pipe s)(rpath r := rest)\<rparr>)"
    using later final by (simp only:)
  have "read_lines (Suc (length ls)) s
      = (Inr (l # ls), s\<lparr>pipe := (pipe s)(rpath r := rest)\<rparr>)"
    by (simp only: read_lines.simps first later_run prod.case sum.case)
  then show ?case by (simp only: length_Cons)
qed

theorem round_trip_plain_lines_witness:
  "fst (read_lines (length [[CHR ''A'', LF], [CHR ''B'', LF], [CHR ''C'', LF]])
         (data_session (concat [[CHR ''A'', LF], [CHR ''B'', LF], [CHR ''C'', LF]])))
     = Inr [[CHR ''A'', LF], [CHR ''B'', LF], [CHR ''C'', LF]]
   \<and> pipe (snd (read_lines (length [[CHR ''A'', LF], [CHR ''B'', LF], [CHR ''C'', LF]])
         (data_session (concat [[CHR ''A'', LF], [CHR ''B'', LF], [CHR ''C'', LF]]))))
       ''/tmp/data1'' = []"
proof -
  let ?ls = "[[CHR ''A'', LF], [CHR ''B'', LF], [CHR ''C'', LF]]"
  have lines: "\<forall>l \<in> set ?ls. newline_terminated l \<and> CR \<notin> set l"
    by (simp add: newline_terminated_def LF_def CR_def)
  have glob: "dataFIFO (data_session (concat ?ls)) = Some example_data"
    by (simp add: data_session_eq example_data_def)
  have obj: "fileReader example_data = Some \<lparr>rpath = ''/tmp/data1''\<rparr>"
    by (simp add: example_data_def)
  have content: "pipe (data_session (concat ?ls)) (rpath \<lparr>rpath = ''/tmp/data1''\<rparr>)
      = concat ?ls @ []"
    by (simp add: data_session_eq)
  show ?thesis
    using round_trip_plain_lines [OF glob obj lines content] by simp
qed

section \<open>The success hook\<close>

text \<open>
  C8. \<^verbatim>\<open>onTraversalSuccess\<close> does nothing: it returns normally, and the ack channel,
  the data channel and the installed exception hook are what they were; so is
  everything else in the state.
\<close>

theorem onTraversalSuccess_noop:
  "fst (onTraversalSuccess s) = Inr ()
   \<and> ackFIFO (snd (onTraversalSuccess s)) = ackFIFO s
   \<and> dataFIFO (snd (onTraversalSuccess s)) = dataFIFO s
   \<and> excepthook (snd (onTraversalSuccess s)) = excepthook s
   \<and> snd (onTraversalSuccess s) = s"
  by (simp add: onTraversalSuccess_def)

section \<open>Using a channel that is absent\<close>

text \<open>
  C9. With the ack global \<^verbatim>\<open>None\<close>, \<^verbatim>\<open>sendAck\<close> and \<^verbatim>\<open>sendNack\<close> raise
  \<^verbatim>\<open>AttributeError\<close>, where \<^verbatim>\<open>closeTool\<close> raises \<^verbatim>\<open>AssertionError\<close>; with the data
  global \<^verbatim>\<open>None\<close>, \<^verbatim>\<open>readDataFIFO\<close> raises \<^verbatim>\<open>AttributeError\<close>, where
  \<^verbatim>\<open>closeDataFIFO\<close> raises \<^verbatim>\<open>AssertionError\<close>. The two errors are different, and
  none of the calls changes the state.
\<close>

theorem absent_channel_attribute_error:
  "(ackFIFO s = None \<longrightarrow>
      sendAck s = (Inl AttributeError, s)
      \<and> sendNack s = (Inl AttributeError, s)
      \<and> closeTool s = (Inl AssertionError, s))
   \<and> (dataFIFO s = None \<longrightarrow>
      readDataFIFO s = (Inl AttributeError, s)
      \<and> closeDataFIFO s = (Inl AssertionError, s))
   \<and> AttributeError \<noteq> AssertionError"
  by (simp add: sendAck_absent sendNack_absent readDataFIFO_absent closeTool_absent
      closeDataFIFO_absent)

theorem absent_channel_attribute_error_witness:
  "ackFIFO example_session = None \<and> dataFIFO example_session = None
   \<and> fst (sendAck example_session) = Inl AttributeError
   \<and> fst (sendNack example_session) = Inl AttributeError
   \<and> fst (readDataFIFO example_session) = Inl AttributeError
   \<and> fst (closeTool example_session) = Inl AssertionError
   \<and> ackFIFO closed_session = None
   \<and> fst (sendAck closed_session) = Inl AttributeError
   \<and> fst (sendNack closed_session) = Inl AttributeError"
proof -
  have b: "ackFIFO closed_session = None"
    by (simp add: closed_session_eq)
  show ?thesis
    using example_session_closed b absent_channel_attribute_error [of example_session]
      absent_channel_attribute_error [of closed_session]
    by simp
qed

section \<open>The hook is never reset\<close>

text \<open>
  C10. No function of the module, and no dispatch of an uncaught exception, uninstalls
  \<^verbatim>\<open>gatkExceptionHook\<close>: where it is installed before, it is installed after,
  whether the function returned or raised. After a successful \<^verbatim>\<open>onTraversalStart\<close>
  the hook is installed, \<^verbatim>\<open>closeTool\<close> returns normally, and after it the hook is
  still installed while the ack global is \<^verbatim>\<open>None\<close>. In any such state an uncaught
  exception is dispatched to the handler, whose \<^verbatim>\<open>sendNack\<close> raises
  \<^verbatim>\<open>AttributeError\<close>; the handler raises with it, no pipe receives anything, and the
  interpreter reports the error in the hook.
\<close>

theorem hook_never_uninstalled:
  "(excepthook s = GatkExceptionHook \<longrightarrow>
      excepthook (snd (closeTool s)) = GatkExceptionHook
      \<and> excepthook (snd (onTraversalSuccess s)) = GatkExceptionHook
      \<and> excepthook (snd (onTraversalStart name s)) = GatkExceptionHook
      \<and> excepthook (snd (sendAck s)) = GatkExceptionHook
      \<and> excepthook (snd (sendNack s)) = GatkExceptionHook
      \<and> excepthook (snd (initializeDataFIFO name s)) = GatkExceptionHook
      \<and> excepthook (snd (closeDataFIFO s)) = GatkExceptionHook
      \<and> excepthook (snd (readDataFIFO s)) = GatkExceptionHook
      \<and> excepthook (snd (gatkExceptionHook e s)) = GatkExceptionHook
      \<and> excepthook (uncaught_exception e s) = GatkExceptionHook)
   \<and> (fst (onTraversalStart name s) = Inr () \<longrightarrow>
        excepthook (snd (onTraversalStart name s)) = GatkExceptionHook
        \<and> fst (closeTool (snd (onTraversalStart name s))) = Inr ()
        \<and> excepthook (snd (closeTool (snd (onTraversalStart name s)))) = GatkExceptionHook
        \<and> ackFIFO (snd (closeTool (snd (onTraversalStart name s)))) = None)
   \<and> (excepthook s = GatkExceptionHook \<and> ackFIFO s = None \<longrightarrow>
        sendNack s = (Inl AttributeError, s)
        \<and> gatkExceptionHook e s = (Inl AttributeError, s)
        \<and> uncaught_exception e s = s\<lparr>stderr := stderr s @ [ErrorInExcepthook AttributeError e]\<rparr>
        \<and> pipe (uncaught_exception e s) = pipe s)"
proof -
  have kept: "excepthook s = GatkExceptionHook \<longrightarrow>
      excepthook (snd (closeTool s)) = GatkExceptionHook
      \<and> excepthook (snd (onTraversalSuccess s)) = GatkExceptionHook
      \<and> excepthook (snd (onTraversalStart name s)) = GatkExceptionHook
      \<and> excepthook (snd (sendAck s)) = GatkExceptionHook
      \<and> excepthook (snd (sendNack s)) = GatkExceptionHook
      \<and> excepthook (snd (initializeDataFIFO name s)) = GatkExceptionHook
      \<and> excepthook (snd (closeDataFIFO s)) = GatkExceptionHook
      \<and> excepthook (snd (readDataFIFO s)) = GatkExceptionHook
      \<and> excepthook (snd (gatkExceptionHook e s)) = GatkExceptionHook
      \<and> excepthook (uncaught_exception e s) = GatkExceptionHook"
    by (simp add: excepthook_kept excepthook_onTraversalStart)
  have lifecycle: "fst (onTraversalStart name s) = Inr () \<longrightarrow>
        excepthook (snd (onTraversalStart name s)) = GatkExceptionHook
        \<and> fst (closeTool (snd (onTraversalStart name s))) = Inr ()
        \<and> excepthook (snd (closeTool (snd (onTraversalStart name s)))) = GatkExceptionHook
        \<and> ackFIFO (snd (closeTool (snd (onTraversalStart name s)))) = None"
  proof (cases "os_open (openable s) name O_WRONLY")
    case (Inr fd)
    then show ?thesis
      by (simp add: onTraversalStart_present [OF Inr] closeTool_open)
  next
    case (Inl err)
    then show ?thesis
      by (simp add: onTraversalStart_missing [OF Inl])
  qed
  have fails: "excepthook s = GatkExceptionHook \<and> ackFIFO s = None \<longrightarrow>
        sendNack s = (Inl AttributeError, s)
        \<and> gatkExceptionHook e s = (Inl AttributeError, s)
        \<and> uncaught_exception e s = s\<lparr>stderr := stderr s @ [ErrorInExcepthook AttributeError e]\<rparr>
        \<and> pipe (uncaught_exception e s) = pipe s"
    by (simp add: sendNack_absent gatkExceptionHook_absent uncaught_exception_def)
  from kept lifecycle fails show ?thesis by blast
qed

theorem hook_never_uninstalled_witness:
  "fst (onTraversalStart ''/tmp/ack1'' example_session) = Inr ()
   \<and> excepthook started_session = GatkExceptionHook
   \<and> fst (closeTool started_session) = Inr ()
   \<and> excepthook closed_session = GatkExceptionHook
   \<and> excepthook (snd (onTraversalSuccess closed_session)) = GatkExceptionHook
   \<and> ackFIFO closed_session = None
   \<and> gatkExceptionHook example_exception closed_session = (Inl AttributeError, closed_session)
   \<and> stderr (uncaught_exception example_exception closed_session) =
       [ErrorInExcepthook AttributeError example_exception]
   \<and> pipe (uncaught_exception example_exception closed_session) ''/tmp/ack1'' = []"
proof -
  have ok: "fst (onTraversalStart ''/tmp/ack1'' example_session) = Inr ()"
    by (simp add: example_session_def module_loaded_def open_unfold)
  have closed: "excepthook closed_session = GatkExceptionHook" "ackFIFO closed_session = None"
    "stderr closed_session = []" "pipe closed_session = (\<lambda>path. [])"
    by (simp_all add: closed_session_eq)
  have lifecycle: "excepthook started_session = GatkExceptionHook
      \<and> fst (closeTool started_session) = Inr ()"
    using ok hook_never_uninstalled [of example_session "''/tmp/ack1''" example_exception]
    by (simp add: started_session_def)
  have after: "excepthook (snd (onTraversalSuccess closed_session)) = GatkExceptionHook
      \<and> gatkExceptionHook example_exception closed_session = (Inl AttributeError, closed_session)
      \<and> uncaught_exception example_exception closed_session =
          closed_session\<lparr>stderr := stderr closed_session
                                     @ [ErrorInExcepthook AttributeError example_exception]\<rparr>"
    using closed hook_never_uninstalled [of closed_session "''/tmp/ack1''" example_exception]
    by blast
  from ok closed lifecycle after show ?thesis by simp
qed

end
